theory Spec2Isabelle
  imports Complex_Main
begin

section \<open>The host language: strings, floats, exceptions\<close>

text \<open>
  The program is a single Python module, \<^verbatim>\<open>main.py\<close>. Its functions are embedded below
  under their own names. What they take from the Python runtime (\<^verbatim>\<open>str.strip\<close>,
  \<^verbatim>\<open>str.split\<close>, \<^verbatim>\<open>float\<close>, comparison of values, \<^verbatim>\<open>sum\<close>, \<^verbatim>\<open>min\<close>,
  \<^verbatim>\<open>max\<close>, the format \<^verbatim>\<open>:.2f\<close>) is modelled first. Strings are lists of characters and
  are taken to be ASCII text.
\<close>

subsection \<open>Exceptions\<close>

text \<open>
  Every exception the module can raise, named by where it comes from. The handlers of the
  module are all \<^verbatim>\<open>except ValueError\<close>, so what matters about an exception besides its
  identity is whether its class is \<^verbatim>\<open>ValueError\<close>.
\<close>

datatype error =
    InvalidFilterCondition
  | UnsupportedAggregate string
  | FloatConversionError string
  | UnpackError nat
  | EmptySequenceError
  | KeyError string
  | TypeError
  | IndexError

text \<open>
  \<^item> \<open>InvalidFilterCondition\<close>: \<^verbatim>\<open>raise ValueError("Invalid filter condition")\<close>, line 29;
  \<^item> \<open>UnsupportedAggregate f\<close>: \<^verbatim>\<open>raise ValueError(f"Unsupported aggregate function: {func}")\<close>, line 56;
  \<^item> \<open>FloatConversionError s\<close>: the \<^verbatim>\<open>ValueError\<close> of \<^verbatim>\<open>float(s)\<close> on a string that is not a number;
  \<^item> \<open>UnpackError n\<close>: the \<^verbatim>\<open>ValueError\<close> of \<^verbatim>\<open>a, b = parts\<close> when \<^verbatim>\<open>parts\<close> has \<open>n \<noteq> 2\<close> elements;
  \<^item> \<open>EmptySequenceError\<close>: the \<^verbatim>\<open>ValueError\<close> of \<^verbatim>\<open>min\<close> and \<^verbatim>\<open>max\<close> on an empty sequence;
  \<^item> \<open>KeyError k\<close>: \<^verbatim>\<open>row[k]\<close> on a row without the key \<open>k\<close>;
  \<^item> \<open>TypeError\<close>: an ordering comparison between a \<^verbatim>\<open>str\<close> and a \<^verbatim>\<open>float\<close>;
  \<^item> \<open>IndexError\<close>: \<^verbatim>\<open>data[0]\<close> on an empty list.
\<close>

fun is_ValueError :: "error \<Rightarrow> bool" where
  "is_ValueError InvalidFilterCondition = True"
| "is_ValueError (UnsupportedAggregate f) = True"
| "is_ValueError (FloatConversionError s) = True"
| "is_ValueError (UnpackError n) = True"
| "is_ValueError EmptySequenceError = True"
| "is_ValueError (KeyError k) = False"
| "is_ValueError TypeError = False"
| "is_ValueError IndexError = False"

text \<open>\<^verbatim>\<open>try: body except ValueError: handler\<close>.\<close>

definition except_ValueError :: "error + 'a \<Rightarrow> error + 'a \<Rightarrow> error + 'a" where
  "except_ValueError body handler =
     (case body of
        Inr x \<Rightarrow> Inr x
      | Inl e \<Rightarrow> if is_ValueError e then handler else Inl e)"

subsection \<open>Strings\<close>

text \<open>
  \<^verbatim>\<open>str.strip()\<close> removes the characters Python counts as whitespace from both ends: in
  ASCII the codes 9 to 13, 28 to 31 and 32.
\<close>

definition py_isspace :: "char \<Rightarrow> bool" where
  "py_isspace c =
     (let n = (of_char c :: nat) in (9 \<le> n \<and> n \<le> 13) \<or> (28 \<le> n \<and> n \<le> 32))"

definition py_strip :: "string \<Rightarrow> string" where
  "py_strip s = rev (dropWhile py_isspace (rev (dropWhile py_isspace s)))"

text \<open>
  \<^verbatim>\<open>s.split(sep)\<close> for a separator of one character: the pieces between all the
  occurrences of the separator, so one piece more than there are occurrences.
\<close>

fun py_split :: "char \<Rightarrow> string \<Rightarrow> string list" where
  "py_split sep [] = [[]]"
| "py_split sep (c # cs) =
     (if c = sep then [] # py_split sep cs
      else (case py_split sep cs of
              p # ps \<Rightarrow> (c # p) # ps
            | [] \<Rightarrow> [[c]]))"

text \<open>Python orders strings lexicographically by code point.\<close>

fun str_lt :: "string \<Rightarrow> string \<Rightarrow> bool" where
  "str_lt [] [] = False"
| "str_lt [] (y # ys) = True"
| "str_lt (x # xs) [] = False"
| "str_lt (x # xs) (y # ys) =
     (if (of_char x :: nat) < of_char y then True
      else if (of_char y :: nat) < of_char x then False
      else str_lt xs ys)"

subsection \<open>Floats\<close>

text \<open>
  A Python \<^verbatim>\<open>float\<close> is an IEEE 754 double: a finite value (kept as the rational number
  it denotes, \<open>Finite 0\<close> being \<^verbatim>\<open>0.0\<close>), the negative zero, the two infinities, or
  not-a-number.
\<close>

datatype pyfloat = Finite rat | NegZero | PosInf | NegInf | NaN

text \<open>The number of binary digits of a positive integer.\<close>

function bit_length :: "int \<Rightarrow> nat" where
  "bit_length n = (if n \<le> 0 then 0 else Suc (bit_length (n div 2)))"
  by pat_completeness auto
termination
  by (relation "measure nat") auto

definition pow2 :: "int \<Rightarrow> rat" where
  "pow2 k = (if 0 \<le> k then 2 ^ nat k else 1 / 2 ^ nat (- k))"

text \<open>The largest \<open>e\<close> with \<open>2 ^ e \<le> a\<close>, for a positive rational \<open>a\<close>.\<close>

definition ilog2 :: "rat \<Rightarrow> int" where
  "ilog2 a =
     (let (n, d) = quotient_of a;
          k = int (bit_length n) - int (bit_length d)
      in if pow2 k \<le> a then k else k - 1)"

definition round_half_even :: "rat \<Rightarrow> int" where
  "round_half_even q =
     (let f = \<lfloor>q\<rfloor>; d = q - of_int f
      in if d < 1 / 2 then f
         else if 1 / 2 < d then f + 1
         else if even f then f else f + 1)"

text \<open>
  Rounding a rational to the nearest double, ties to even: 53 significant bits, the least
  exponent \<open>-1074\<close> (subnormal numbers), overflow to an infinity when the rounded value
  reaches \<open>2 ^ 1024\<close>.
\<close>

definition round_double :: "rat \<Rightarrow> pyfloat" where
  "round_double q =
     (if q = 0 then Finite 0
      else
        let a = \<bar>q\<bar>;
            p = max (ilog2 a - 52) (- 1074);
            m = round_half_even (a / pow2 p);
            r = of_int m * pow2 p
        in if m = 0 then (if 0 < q then Finite 0 else NegZero)
           else if 1024 \<le> ilog2 r then (if 0 < q then PosInf else NegInf)
           else Finite (if 0 < q then r else - r))"

text \<open>Addition and division of doubles; the divisor is a positive integer (a length).\<close>

fun float_add :: "pyfloat \<Rightarrow> pyfloat \<Rightarrow> pyfloat" where
  "float_add NaN y = NaN"
| "float_add x NaN = NaN"
| "float_add PosInf NegInf = NaN"
| "float_add NegInf PosInf = NaN"
| "float_add PosInf y = PosInf"
| "float_add x PosInf = PosInf"
| "float_add NegInf y = NegInf"
| "float_add x NegInf = NegInf"
| "float_add NegZero y = (case y of NegZero \<Rightarrow> NegZero | _ \<Rightarrow> y)"
| "float_add x NegZero = x"
| "float_add (Finite a) (Finite b) = round_double (a + b)"

fun float_div_len :: "pyfloat \<Rightarrow> nat \<Rightarrow> pyfloat" where
  "float_div_len (Finite a) n = round_double (a / of_nat n)"
| "float_div_len x n = x"

text \<open>Comparison of doubles: not-a-number compares false with everything, the zeros are equal.\<close>

fun float_lt :: "pyfloat \<Rightarrow> pyfloat \<Rightarrow> bool" where
  "float_lt NaN y = False"
| "float_lt x NaN = False"
| "float_lt PosInf y = False"
| "float_lt x NegInf = False"
| "float_lt NegInf y = True"
| "float_lt x PosInf = True"
| "float_lt NegZero NegZero = False"
| "float_lt NegZero (Finite b) = (0 < b)"
| "float_lt (Finite a) NegZero = (a < 0)"
| "float_lt (Finite a) (Finite b) = (a < b)"

fun float_eq :: "pyfloat \<Rightarrow> pyfloat \<Rightarrow> bool" where
  "float_eq NaN y = False"
| "float_eq x NaN = False"
| "float_eq NegZero y = (y = NegZero \<or> y = Finite 0)"
| "float_eq x NegZero = (x = Finite 0)"
| "float_eq x y = (x = y)"

text \<open>
  \<^verbatim>\<open>float(s)\<close> on a string. An underscore is allowed between two digits only; the
  underscores are dropped, the ASCII whitespace at both ends (codes 9 to 13 and 32) is
  skipped, and what is left has to be, as a whole, an optional sign followed by
  \<^verbatim>\<open>inf\<close>, \<^verbatim>\<open>infinity\<close> or \<^verbatim>\<open>nan\<close> in any case, or by a decimal
  number: digits with an optional point (at least one digit before or after it) and an
  optional exponent. The number is rounded to the nearest double.
\<close>

definition is_digit :: "char \<Rightarrow> bool" where
  "is_digit c = (let n = (of_char c :: nat) in 48 \<le> n \<and> n \<le> 57)"

definition dec_value :: "string \<Rightarrow> int" where
  "dec_value ds = foldl (\<lambda>acc c. 10 * acc + (of_char c - 48)) 0 ds"

definition pow10 :: "int \<Rightarrow> rat" where
  "pow10 k = (if 0 \<le> k then 10 ^ nat k else 1 / 10 ^ nat (- k))"

fun underscores_ok :: "char option \<Rightarrow> string \<Rightarrow> bool" where
  "underscores_ok prev [] = (prev \<noteq> Some CHR ''_'')"
| "underscores_ok prev (c # cs) =
     (if c = CHR ''_''
      then (case prev of None \<Rightarrow> False | Some p \<Rightarrow> is_digit p \<and> underscores_ok (Some c) cs)
      else if prev = Some CHR ''_'' then is_digit c \<and> underscores_ok (Some c) cs
      else underscores_ok (Some c) cs)"

definition c_isspace :: "char \<Rightarrow> bool" where
  "c_isspace c = (let n = (of_char c :: nat) in (9 \<le> n \<and> n \<le> 13) \<or> n = 32)"

definition ascii_lower :: "char \<Rightarrow> char" where
  "ascii_lower c =
     (let n = (of_char c :: nat) in if 65 \<le> n \<and> n \<le> 90 then char_of (n + 32) else c)"

definition split_sign :: "string \<Rightarrow> bool \<times> string" where
  "split_sign s =
     (case s of
        [] \<Rightarrow> (False, [])
      | c # r \<Rightarrow> if c = CHR ''-'' then (True, r)
                 else if c = CHR ''+'' then (False, r)
                 else (False, s))"

definition parse_exponent :: "string \<Rightarrow> int option" where
  "parse_exponent s =
     (case s of
        [] \<Rightarrow> Some 0
      | c # r \<Rightarrow>
          if c = CHR ''e'' \<or> c = CHR ''E'' then
            (let (neg, ds) = split_sign r
             in if ds \<noteq> [] \<and> list_all is_digit ds
                then Some (if neg then - dec_value ds else dec_value ds)
                else None)
          else None)"

definition mk_float :: "bool \<Rightarrow> int \<Rightarrow> int \<Rightarrow> pyfloat" where
  "mk_float neg m e =
     (if m = 0 then (if neg then NegZero else Finite 0)
      else round_double ((if neg then - 1 else 1) * of_int m * pow10 e))"

definition parse_number :: "bool \<Rightarrow> string \<Rightarrow> pyfloat option" where
  "parse_number neg u =
     (let ip = takeWhile is_digit u;
          r1 = dropWhile is_digit u;
          (fp, r2) = (case r1 of
                        [] \<Rightarrow> ([], [])
                      | c # r \<Rightarrow> if c = CHR ''.''
                                 then (takeWhile is_digit r, dropWhile is_digit r)
                                 else ([], r1))
      in if ip = [] \<and> fp = [] then None
         else (case parse_exponent r2 of
                 None \<Rightarrow> None
               | Some e \<Rightarrow> Some (mk_float neg (dec_value (ip @ fp)) (e - int (length fp)))))"

definition parse_float :: "string \<Rightarrow> pyfloat option" where
  "parse_float s =
     (if \<not> underscores_ok None s then None
      else
        let t = filter (\<lambda>c. c \<noteq> CHR ''_'') s;
            t = rev (dropWhile c_isspace (rev (dropWhile c_isspace t)));
            (neg, u) = split_sign t;
            l = map ascii_lower u
        in if l = ''inf'' \<or> l = ''infinity'' then Some (if neg then NegInf else PosInf)
           else if l = ''nan'' then Some NaN
           else parse_number neg u)"

definition py_float :: "string \<Rightarrow> error + pyfloat" where
  "py_float s =
     (case parse_float s of
        None \<Rightarrow> Inl (FloatConversionError s)
      | Some x \<Rightarrow> Inr x)"

subsection \<open>Values and the comparison operators\<close>

text \<open>
  The two kinds of values the filter compares, and \<^verbatim>\<open>operator.gt\<close>,
  \<^verbatim>\<open>operator.lt\<close>, \<^verbatim>\<open>operator.eq\<close> on them: an ordering between a string and a
  float raises \<^verbatim>\<open>TypeError\<close>, an equality between them is false.
\<close>

datatype pyval = Str string | Float pyfloat

fun operator_lt :: "pyval \<Rightarrow> pyval \<Rightarrow> error + bool" where
  "operator_lt (Float a) (Float b) = Inr (float_lt a b)"
| "operator_lt (Str a) (Str b) = Inr (str_lt a b)"
| "operator_lt a b = Inl TypeError"

fun operator_gt :: "pyval \<Rightarrow> pyval \<Rightarrow> error + bool" where
  "operator_gt (Float a) (Float b) = Inr (float_lt b a)"
| "operator_gt (Str a) (Str b) = Inr (str_lt b a)"
| "operator_gt a b = Inl TypeError"

fun operator_eq :: "pyval \<Rightarrow> pyval \<Rightarrow> error + bool" where
  "operator_eq (Float a) (Float b) = Inr (float_eq a b)"
| "operator_eq (Str a) (Str b) = Inr (a = b)"
| "operator_eq a b = Inr False"

subsection \<open>Rows and list comprehensions\<close>

text \<open>
  A row is a \<^verbatim>\<open>Dict[str, str]\<close>: the pairs of column name and cell, in the order of
  the columns. \<^verbatim>\<open>row[column]\<close> raises \<^verbatim>\<open>KeyError\<close> when the column is absent.
\<close>

type_synonym row = "(string \<times> string) list"

definition getitem :: "row \<Rightarrow> string \<Rightarrow> error + string" where
  "getitem row column =
     (case map_of row column of
        None \<Rightarrow> Inl (KeyError column)
      | Some cell \<Rightarrow> Inr cell)"

definition keys :: "row \<Rightarrow> string list" where
  "keys row = map fst row"

text \<open>
  \<^verbatim>\<open>[x for x in xs if p(x)]\<close> and \<^verbatim>\<open>[f(x) for x in xs]\<close>, from left to right, stopping
  at the first exception.
\<close>

fun comprehension_if :: "('a \<Rightarrow> error + bool) \<Rightarrow> 'a list \<Rightarrow> error + 'a list" where
  "comprehension_if p [] = Inr []"
| "comprehension_if p (x # xs) =
     (case p x of
        Inl e \<Rightarrow> Inl e
      | Inr b \<Rightarrow>
          (case comprehension_if p xs of
             Inl e \<Rightarrow> Inl e
           | Inr ys \<Rightarrow> Inr (if b then x # ys else ys)))"

fun comprehension :: "('a \<Rightarrow> error + 'b) \<Rightarrow> 'a list \<Rightarrow> error + 'b list" where
  "comprehension f [] = Inr []"
| "comprehension f (x # xs) =
     (case f x of
        Inl e \<Rightarrow> Inl e
      | Inr y \<Rightarrow>
          (case comprehension f xs of
             Inl e \<Rightarrow> Inl e
           | Inr ys \<Rightarrow> Inr (y # ys)))"

section \<open>\<^verbatim>\<open>filter_data\<close>\<close>

text \<open>
  The dictionary \<^verbatim>\<open>ops\<close> (lines 15 to 19), in its iteration order. Its keys are strings of
  one character.
\<close>

definition ops :: "(char \<times> (pyval \<Rightarrow> pyval \<Rightarrow> error + bool)) list" where
  "ops = [(CHR ''>'', operator_gt), (CHR ''<'', operator_lt), (CHR ''='', operator_eq)]"

text \<open>
  \<^verbatim>\<open>column, value = condition.split(op_str)\<close>: the assignment needs exactly two pieces.
\<close>

definition unpack2 :: "'a list \<Rightarrow> error + 'a \<times> 'a" where
  "unpack2 parts =
     (case parts of
        [a, b] \<Rightarrow> Inr (a, b)
      | _ \<Rightarrow> Inl (UnpackError (length parts)))"

text \<open>
  The loop of lines 21 to 29 over the keys of \<^verbatim>\<open>ops\<close> still to be tried; its
  \<^verbatim>\<open>else\<close> branch runs when no operator occurs in the condition. The loop leaves
  \<^verbatim>\<open>column\<close>, \<^verbatim>\<open>value\<close> and \<^verbatim>\<open>op_str\<close>.
\<close>

fun find_op :: "char list \<Rightarrow> string \<Rightarrow> error + string \<times> string \<times> char" where
  "find_op [] condition = Inl InvalidFilterCondition"
| "find_op (op_str # rest) condition =
     (if op_str \<in> set condition then
        (case unpack2 (py_split op_str condition) of
           Inl e \<Rightarrow> Inl e
         | Inr (column, value) \<Rightarrow> Inr (py_strip column, py_strip value, op_str))
      else find_op rest condition)"

definition parse_condition :: "string \<Rightarrow> error + string \<times> string \<times> char" where
  "parse_condition condition = find_op (map fst ops) condition"

text \<open>\<^verbatim>\<open>ops[op_str]\<close>, line 26.\<close>

definition ops_getitem :: "char \<Rightarrow> error + (pyval \<Rightarrow> pyval \<Rightarrow> error + bool)" where
  "ops_getitem op_str =
     (case map_of ops op_str of
        None \<Rightarrow> Inl (KeyError [op_str])
      | Some op_func \<Rightarrow> Inr op_func)"

text \<open>
  Lines 31 to 35. The \<^verbatim>\<open>try\<close> block converts \<^verbatim>\<open>value\<close> and then filters on the
  converted cells; the handler filters on the raw cells against \<^verbatim>\<open>value\<close> as it stands
  when the exception is raised: still the string when \<^verbatim>\<open>float(value)\<close> raised, already
  the float when the conversion of a cell raised.
\<close>

definition numeric_test ::
  "(pyval \<Rightarrow> pyval \<Rightarrow> error + bool) \<Rightarrow> string \<Rightarrow> pyfloat \<Rightarrow> row \<Rightarrow> error + bool" where
  "numeric_test op_func column v row =
     (case getitem row column of
        Inl e \<Rightarrow> Inl e
      | Inr cell \<Rightarrow>
          (case py_float cell of
             Inl e \<Rightarrow> Inl e
           | Inr c \<Rightarrow> op_func (Float c) (Float v)))"

definition raw_test ::
  "(pyval \<Rightarrow> pyval \<Rightarrow> error + bool) \<Rightarrow> string \<Rightarrow> pyval \<Rightarrow> row \<Rightarrow> error + bool" where
  "raw_test op_func column value row =
     (case getitem row column of
        Inl e \<Rightarrow> Inl e
      | Inr cell \<Rightarrow> op_func (Str cell) value)"

definition filter_data :: "row list \<Rightarrow> string \<Rightarrow> error + row list" where
  "filter_data data condition =
     (case parse_condition condition of
        Inl e \<Rightarrow> Inl e
      | Inr (column, value, op_str) \<Rightarrow>
          (case ops_getitem op_str of
             Inl e \<Rightarrow> Inl e
           | Inr op_func \<Rightarrow>
               (case py_float value of
                  Inl e \<Rightarrow>
                    except_ValueError (Inl e)
                      (comprehension_if (raw_test op_func column (Str value)) data)
                | Inr v \<Rightarrow>
                    except_ValueError
                      (comprehension_if (numeric_test op_func column v) data)
                      (comprehension_if (raw_test op_func column (Float v)) data))))"

section \<open>\<^verbatim>\<open>try_float\<close> and the \<^verbatim>\<open>Aggregator\<close>\<close>

definition try_float :: "string \<Rightarrow> error + pyfloat option" where
  "try_float value =
     except_ValueError
       (case py_float value of Inl e \<Rightarrow> Inl e | Inr x \<Rightarrow> Inr (Some x))
       (Inr None)"

text \<open>
  A reducer returns a number: the \<^verbatim>\<open>int\<close> \<^verbatim>\<open>0\<close> of the guard of \<^verbatim>\<open>avg\<close>, or a
  float.
\<close>

datatype pynum = PyInt int | PyFloat pyfloat

text \<open>
  \<^verbatim>\<open>sum(x)\<close> adds the floats from left to right, starting from zero, each addition
  rounded (interpreters that compensate the rounding errors of the additions give the same
  sum whenever the partial sums are exact); \<^verbatim>\<open>min\<close> and \<^verbatim>\<open>max\<close> keep the first
  element and replace it by a later one that compares smaller (greater), and raise
  \<^verbatim>\<open>ValueError\<close> on an empty sequence.
\<close>

definition py_sum :: "pyfloat list \<Rightarrow> pyfloat" where
  "py_sum x = foldl float_add (Finite 0) x"

definition py_min :: "pyfloat list \<Rightarrow> error + pynum" where
  "py_min x =
     (case x of
        [] \<Rightarrow> Inl EmptySequenceError
      | first # rest \<Rightarrow>
          Inr (PyFloat (foldl (\<lambda>best item. if float_lt item best then item else best) first rest)))"

definition py_max :: "pyfloat list \<Rightarrow> error + pynum" where
  "py_max x =
     (case x of
        [] \<Rightarrow> Inl EmptySequenceError
      | first # rest \<Rightarrow>
          Inr (PyFloat (foldl (\<lambda>best item. if float_lt best item then item else best) first rest)))"

text \<open>\<^verbatim>\<open>lambda x: sum(x) / len(x) if x else 0\<close>, line 48.\<close>

definition avg :: "pyfloat list \<Rightarrow> error + pynum" where
  "avg x =
     (if x \<noteq> [] then Inr (PyFloat (float_div_len (py_sum x) (length x)))
      else Inr (PyInt 0))"

text \<open>The registry \<^verbatim>\<open>self.functions\<close> (lines 47 to 52), in its iteration order.\<close>

definition Aggregator_functions :: "(string \<times> (pyfloat list \<Rightarrow> error + pynum)) list" where
  "Aggregator_functions = [(''avg'', avg), (''min'', py_min), (''max'', py_max)]"

text \<open>
  The format \<^verbatim>\<open>:.2f\<close>: the exact value of the double, rounded to two decimals with ties
  to even; the sign is kept when a negative value rounds to zero.
\<close>

function show_int :: "int \<Rightarrow> string" where
  "show_int n =
     (if n < 10 then [char_of (48 + n)]
      else show_int (n div 10) @ [char_of (48 + n mod 10)])"
  by pat_completeness auto
termination
  by (relation "measure nat") auto

definition format_fixed2 :: "rat \<Rightarrow> string" where
  "format_fixed2 q =
     (let n = round_half_even (\<bar>q\<bar> * 100)
      in (if q < 0 then ''-'' else []) @ show_int (n div 100) @ ''.''
           @ [char_of (48 + n mod 100 div 10), char_of (48 + n mod 10)])"

fun format_float :: "pyfloat \<Rightarrow> string" where
  "format_float (Finite q) = format_fixed2 q"
| "format_float NegZero = ''-0.00''"
| "format_float PosInf = ''inf''"
| "format_float NegInf = ''-inf''"
| "format_float NaN = ''nan''"

fun format_2f :: "pynum \<Rightarrow> string" where
  "format_2f (PyFloat x) = format_float x"
| "format_2f (PyInt i) = format_float (round_double (of_int i))"

text \<open>\<^verbatim>\<open>Aggregator.apply\<close>, lines 54 to 57.\<close>

definition Aggregator_apply :: "string \<Rightarrow> pyfloat list \<Rightarrow> error + pynum" where
  "Aggregator_apply func values =
     (case map_of Aggregator_functions func of
        None \<Rightarrow> Inl (UnsupportedAggregate func)
      | Some f \<Rightarrow> f values)"

text \<open>
  \<^verbatim>\<open>Aggregator.all\<close>, lines 59 and 60. Each element of the result is a list of two
  strings, which every caller takes apart again at once; it is kept as a pair.
\<close>

definition Aggregator_all :: "pyfloat list \<Rightarrow> error + (string \<times> string) list" where
  "Aggregator_all values =
     comprehension
       (\<lambda>(key, f). case f values of Inl e \<Rightarrow> Inl e | Inr r \<Rightarrow> Inr (key, format_2f r))
       Aggregator_functions"

section \<open>\<^verbatim>\<open>aggregate_all_columns\<close>\<close>

text \<open>
  What the program prints: a line of text, the table of the rows
  (\<^verbatim>\<open>tabulate(data, headers='keys')\<close>), or a table of lists under given headers. The
  rendering itself belongs to the \<^verbatim>\<open>tabulate\<close> package.
\<close>

datatype printed =
    Print string
  | Tabulate_rows "row list"
  | Tabulate "string list" "string list list"

text \<open>\<^verbatim>\<open>all(p(x) for x in xs)\<close>: stops at the first element that fails.\<close>

fun py_all :: "('a \<Rightarrow> error + bool) \<Rightarrow> 'a list \<Rightarrow> error + bool" where
  "py_all p [] = Inr True"
| "py_all p (x # xs) =
     (case p x of
        Inl e \<Rightarrow> Inl e
      | Inr b \<Rightarrow> if b then py_all p xs else Inr False)"

text \<open>The condition of line 67 for one key.\<close>

definition column_is_numeric :: "row list \<Rightarrow> string \<Rightarrow> error + bool" where
  "column_is_numeric data key =
     py_all
       (\<lambda>row. case getitem row key of
                 Inl e \<Rightarrow> Inl e
               | Inr cell \<Rightarrow>
                   (case try_float cell of
                      Inl e \<Rightarrow> Inl e
                    | Inr r \<Rightarrow> Inr (r \<noteq> None)))
       data"

text \<open>Lines 65 to 68: the list \<^verbatim>\<open>numeric_columns\<close> after the first loop.\<close>

definition numeric_columns :: "row list \<Rightarrow> error + string list" where
  "numeric_columns data =
     (case data of
        [] \<Rightarrow> Inl IndexError
      | first # _ \<Rightarrow> comprehension_if (column_is_numeric data) (keys first))"

text \<open>\<^verbatim>\<open>[float(row[column]) for row in data]\<close>, lines 73 and 106.\<close>

definition float_cells :: "row list \<Rightarrow> string \<Rightarrow> error + pyfloat list" where
  "float_cells data column =
     comprehension
       (\<lambda>row. case getitem row column of Inl e \<Rightarrow> Inl e | Inr cell \<Rightarrow> py_float cell)
       data"

text \<open>Lines 71 to 74: the list \<^verbatim>\<open>result_table\<close> after the second loop.\<close>

fun result_table :: "row list \<Rightarrow> string list \<Rightarrow> error + string list list" where
  "result_table data [] = Inr []"
| "result_table data (column # rest) =
     (case float_cells data column of
        Inl e \<Rightarrow> Inl e
      | Inr values \<Rightarrow>
          (case Aggregator_all values of
             Inl e \<Rightarrow> Inl e
           | Inr pairs \<Rightarrow>
               (case result_table data rest of
                  Inl e \<Rightarrow> Inl e
                | Inr table \<Rightarrow> Inr (map (\<lambda>(func, val). [func, column, val]) pairs @ table))))"

text \<open>
  A run of a procedure that prints: what it has printed, and how it ended (an uncaught
  exception, or normally).
\<close>

type_synonym run = "printed list \<times> (error + unit)"

definition aggregate_all_columns :: "row list \<Rightarrow> run" where
  "aggregate_all_columns data =
     (case numeric_columns data of
        Inl e \<Rightarrow> ([], Inl e)
      | Inr columns \<Rightarrow>
          (case result_table data columns of
             Inl e \<Rightarrow> ([], Inl e)
           | Inr table \<Rightarrow> ([Tabulate [''func'', ''column'', ''value''] table], Inr ())))"

section \<open>\<^verbatim>\<open>main\<close>\<close>

text \<open>
  \<^verbatim>\<open>main\<close> is a function of the rows read from the file and of the two optional
  arguments \<^verbatim>\<open>--where\<close> and \<^verbatim>\<open>--aggregate\<close>. An absent argument and an empty one
  both count as false in \<^verbatim>\<open>if args.where\<close> and \<^verbatim>\<open>if args.aggregate\<close>.
\<close>

definition given :: "string option \<Rightarrow> string option" where
  "given arg = (case arg of None \<Rightarrow> None | Some s \<Rightarrow> if s = [] then None else Some s)"

text \<open>Lines 88 and 89.\<close>

definition where_stage :: "row list \<Rightarrow> string option \<Rightarrow> error + row list" where
  "where_stage data where_arg =
     (case given where_arg of
        None \<Rightarrow> Inr data
      | Some condition \<Rightarrow> filter_data data condition)"

text \<open>Lines 97 to 119, after the table of the rows has been printed.\<close>

definition aggregate_stage :: "row list \<Rightarrow> string option \<Rightarrow> run" where
  "aggregate_stage data aggregate_arg =
     (case given aggregate_arg of
        None \<Rightarrow> aggregate_all_columns data
      | Some aggregate \<Rightarrow>
          if CHR ''='' \<notin> set aggregate
          then ([Print ''Invalid aggregate argument. Use column=func format.''], Inr ())
          else
            (case unpack2 (py_split CHR ''='' aggregate) of
               Inl e \<Rightarrow> ([], Inl e)
             | Inr (column0, func0) \<Rightarrow>
                 let column = py_strip column0; func = py_strip func0 in
                 (case float_cells data column of
                    Inl e \<Rightarrow>
                      if is_ValueError e
                      then ([Print ''Aggregation can only be applied to numeric columns.''], Inr ())
                      else ([], Inl e)
                  | Inr values \<Rightarrow>
                      if func = ''all'' then
                        (case Aggregator_all values of
                           Inl e \<Rightarrow> ([], Inl e)
                         | Inr result \<Rightarrow>
                             ([Tabulate [''func'', ''column'', ''value'']
                                 (map (\<lambda>(f, v). [f, column, v]) result)], Inr ()))
                      else
                        (case Aggregator_apply func values of
                           Inl e \<Rightarrow> ([], Inl e)
                         | Inr result \<Rightarrow> ([Tabulate [func] [[format_2f result]]], Inr ())))))"

definition main :: "row list \<Rightarrow> string option \<Rightarrow> string option \<Rightarrow> run" where
  "main file_rows where_arg aggregate_arg =
     (case where_stage file_rows where_arg of
        Inl e \<Rightarrow> ([], Inl e)
      | Inr data \<Rightarrow>
          if data = [] then ([Print ''No data matched the filter condition.''], Inr ())
          else
            (case aggregate_stage data aggregate_arg of
               (out, status) \<Rightarrow> (Tabulate_rows data # out, status)))"

section \<open>Notions of the specification\<close>

text \<open>
  The specification speaks of a row's cell in a column ``parsed as a number'' and of a
  cell that ``satisfies the comparison'' against the value of the condition. The two
  notions, in its words: the cell of the row in the column, if the row has the column and
  the cell parses as a floating-point number; and the numeric comparison named by the
  operator token, with the cell on the left.
\<close>

definition cell_number :: "row \<Rightarrow> string \<Rightarrow> pyfloat option" where
  "cell_number row column =
     (case map_of row column of
        None \<Rightarrow> None
      | Some cell \<Rightarrow> parse_float cell)"

definition satisfies :: "char \<Rightarrow> pyfloat \<Rightarrow> pyfloat \<Rightarrow> bool" where
  "satisfies op_str c v =
     (if op_str = CHR ''>'' then float_lt v c
      else if op_str = CHR ''<'' then float_lt c v
      else float_eq c v)"

section \<open>Lemmas about the functions\<close>

lemma py_split_nonempty: "py_split sep s \<noteq> []"
  by (induction s) (auto split: list.splits)

lemma py_split_absent: "sep \<notin> set s \<Longrightarrow> py_split sep s = [s]"
  by (induction s) auto

lemma py_split_first: "sep \<notin> set a \<Longrightarrow> py_split sep (a @ sep # b) = a # py_split sep b"
  by (induction a) (auto simp: py_split_nonempty split: list.splits)

lemma length_py_split: "length (py_split sep s) = Suc (count_list s sep)"
  by (induction s) (auto simp: py_split_nonempty split: list.splits)

lemma unpack2_py_split_once:
  "sep \<notin> set a \<Longrightarrow> sep \<notin> set b \<Longrightarrow> unpack2 (py_split sep (a @ sep # b)) = Inr (a, b)"
  by (simp add: py_split_first py_split_absent unpack2_def)

lemma unpack2_error: "length parts \<noteq> 2 \<Longrightarrow> unpack2 parts = Inl (UnpackError (length parts))"
  by (auto simp: unpack2_def split: list.splits)

lemma unpack2_not_invalid: "unpack2 parts \<noteq> Inl InvalidFilterCondition"
  by (auto simp: unpack2_def split: list.splits)

lemma find_op_invalid_iff:
  "(find_op ks s = Inl InvalidFilterCondition) = (\<forall>k \<in> set ks. k \<notin> set s)"
  by (induction ks) (auto simp: unpack2_not_invalid split: sum.splits)

lemma parse_condition_invalid_iff:
  "(parse_condition s = Inl InvalidFilterCondition) =
   (CHR ''>'' \<notin> set s \<and> CHR ''<'' \<notin> set s \<and> CHR ''='' \<notin> set s)"
  by (simp add: parse_condition_def ops_def find_op_invalid_iff del: find_op.simps)

lemma find_op_token: "find_op ks s = Inr (column, value, k) \<Longrightarrow> k \<in> set ks"
  by (induction ks) (auto split: if_splits sum.splits)

lemma parse_condition_token:
  "parse_condition s = Inr (column, value, k) \<Longrightarrow> k = CHR ''>'' \<or> k = CHR ''<'' \<or> k = CHR ''=''"
proof -
  assume "parse_condition s = Inr (column, value, k)"
  then have "k \<in> set (map fst ops)"
    unfolding parse_condition_def by (rule find_op_token)
  then show ?thesis by (auto simp: ops_def)
qed

lemma comprehension_if_total:
  "\<forall>x \<in> set xs. p x = Inr (q x) \<Longrightarrow> comprehension_if p xs = Inr (filter q xs)"
  by (induction xs) auto

lemma comprehension_if_error:
  "comprehension_if p xs = Inl e \<Longrightarrow> \<exists>x \<in> set xs. p x = Inl e"
  by (induction xs) (auto split: sum.splits)

lemma comprehension_if_fails:
  "\<exists>x \<in> set xs. \<exists>e. p x = Inl e \<Longrightarrow> \<exists>e. comprehension_if p xs = Inl e"
  by (induction xs) (force split: sum.splits)+

lemma ops_getitem_cases:
  "ops_getitem CHR ''>'' = Inr operator_gt"
  "ops_getitem CHR ''<'' = Inr operator_lt"
  "ops_getitem CHR ''='' = Inr operator_eq"
  by (simp_all add: ops_getitem_def ops_def)

lemma py_float_simps:
  "parse_float s = Some x \<Longrightarrow> py_float s = Inr x"
  "parse_float s = None \<Longrightarrow> py_float s = Inl (FloatConversionError s)"
  by (simp_all add: py_float_def)

lemma numeric_test_satisfies:
  assumes "k = CHR ''>'' \<or> k = CHR ''<'' \<or> k = CHR ''=''"
    and "ops_getitem k = Inr op_func"
    and "cell_number row column = Some c"
  shows "numeric_test op_func column v row = Inr (satisfies k c v)"
  using assms
  by (auto simp: numeric_test_def getitem_def cell_number_def satisfies_def ops_getitem_cases
      py_float_simps split: option.splits)

lemma ops_getitem_token:
  assumes "k = CHR ''>'' \<or> k = CHR ''<'' \<or> k = CHR ''=''"
  obtains op_func where "ops_getitem k = Inr op_func"
  using assms ops_getitem_cases by blast

lemma ops_getitem_Inr:
  "ops_getitem k = Inr f \<Longrightarrow>
   (k = CHR ''>'' \<and> f = operator_gt) \<or> (k = CHR ''<'' \<and> f = operator_lt)
   \<or> (k = CHR ''='' \<and> f = operator_eq)"
  by (auto simp: ops_getitem_def ops_def split: if_splits)

lemma raw_test_error:
  assumes "ops_getitem k = Inr f" and "raw_test f column val row = Inl e"
  shows "e = KeyError column \<or> e = TypeError"
proof -
  from assms(1) have "f = operator_gt \<or> f = operator_lt \<or> f = operator_eq"
    by (auto dest: ops_getitem_Inr)
  with assms(2) show ?thesis
    by (cases val) (auto simp: raw_test_def getitem_def split: option.splits)
qed

lemma handler_error:
  assumes "ops_getitem k = Inr f"
    and "comprehension_if (raw_test f column val) data = Inl e"
  shows "\<not> is_ValueError e"
proof -
  from assms(2) obtain row where "raw_test f column val row = Inl e"
    by (auto dest: comprehension_if_error)
  with assms(1) have "e = KeyError column \<or> e = TypeError"
    by (rule raw_test_error)
  then show ?thesis by auto
qed

lemma except_ValueError_error:
  assumes "except_ValueError body handler = Inl e" and "is_ValueError e"
  shows "handler = Inl e"
  using assms by (auto simp: except_ValueError_def split: sum.splits if_splits)

lemma filter_data_ValueError:
  assumes "filter_data data s = Inl e" and "is_ValueError e"
  shows "parse_condition s = Inl e"
proof (cases "parse_condition s")
  case (Inl e')
  with assms(1) show ?thesis by (simp add: filter_data_def)
next
  case (Inr t)
  obtain column val k where t: "t = (column, val, k)" by (cases t)
  from Inr t have "k = CHR ''>'' \<or> k = CHR ''<'' \<or> k = CHR ''=''"
    by (auto dest: parse_condition_token)
  then obtain f where f: "ops_getitem k = Inr f" by (rule ops_getitem_token)
  have False
  proof (cases "py_float val")
    case (Inl e1)
    with assms(1) Inr t f
    have "except_ValueError (Inl e1) (comprehension_if (raw_test f column (Str val)) data) = Inl e"
      by (simp add: filter_data_def)
    from this assms(2) have "comprehension_if (raw_test f column (Str val)) data = Inl e"
      by (rule except_ValueError_error)
    with f assms(2) show False by (auto dest: handler_error)
  next
    case (Inr v)
    with assms(1) \<open>parse_condition s = Inr t\<close> t f
    have "except_ValueError (comprehension_if (numeric_test f column v) data)
            (comprehension_if (raw_test f column (Float v)) data) = Inl e"
      by (simp add: filter_data_def)
    from this assms(2) have "comprehension_if (raw_test f column (Float v)) data = Inl e"
      by (rule except_ValueError_error)
    with f assms(2) show False by (auto dest: handler_error)
  qed
  then show ?thesis ..
qed

lemma first_pass_total:
  assumes "k = CHR ''>'' \<or> k = CHR ''<'' \<or> k = CHR ''=''"
    and "ops_getitem k = Inr f"
    and "\<forall>row \<in> set data. cell_number row column \<noteq> None"
  shows "comprehension_if (numeric_test f column v) data =
         Inr (filter (\<lambda>row. case cell_number row column of
                               None \<Rightarrow> False
                             | Some c \<Rightarrow> satisfies k c v) data)"
proof (rule comprehension_if_total, rule ballI)
  fix row assume "row \<in> set data"
  with assms(3) obtain c where c: "cell_number row column = Some c" by auto
  with assms(1,2) have "numeric_test f column v row = Inr (satisfies k c v)"
    by (rule numeric_test_satisfies)
  with c show "numeric_test f column v row =
      Inr (case cell_number row column of None \<Rightarrow> False | Some c \<Rightarrow> satisfies k c v)"
    by simp
qed

lemma numeric_test_bad_cell:
  assumes "map_of row column = Some cell" and "parse_float cell = None"
  shows "numeric_test f column v row = Inl (FloatConversionError cell)"
  using assms by (simp add: numeric_test_def getitem_def py_float_def)

lemma first_pass_bad_cell:
  assumes "k = CHR ''>'' \<or> k = CHR ''<'' \<or> k = CHR ''=''"
    and "ops_getitem k = Inr f"
    and "\<forall>row \<in> set data. map_of row column \<noteq> None"
    and "\<exists>row \<in> set data. cell_number row column = None"
  shows "\<exists>cell. comprehension_if (numeric_test f column v) data = Inl (FloatConversionError cell)"
  using assms(3,4)
proof (induction data)
  case Nil
  then show ?case by simp
next
  case (Cons row rest)
  from Cons.prems(1) obtain cell where cell: "map_of row column = Some cell" by auto
  show ?case
  proof (cases "parse_float cell")
    case None
    with cell have "numeric_test f column v row = Inl (FloatConversionError cell)"
      by (rule numeric_test_bad_cell)
    then show ?thesis by simp
  next
    case (Some c)
    with cell have c: "cell_number row column = Some c"
      by (simp add: cell_number_def)
    with assms(1,2) have ok: "numeric_test f column v row = Inr (satisfies k c v)"
      by (rule numeric_test_satisfies)
    from c Cons.prems(2) have "\<exists>r \<in> set rest. cell_number r column = None" by auto
    moreover from Cons.prems(1) have "\<forall>r \<in> set rest. map_of r column \<noteq> None" by simp
    ultimately obtain bad where
      "comprehension_if (numeric_test f column v) rest = Inl (FloatConversionError bad)"
      using Cons.IH by blast
    with ok show ?thesis by simp
  qed
qed

lemma raw_eq_float:
  assumes "map_of row column \<noteq> None"
  shows "raw_test operator_eq column (Float v) row = Inr False"
  using assms by (auto simp: raw_test_def getitem_def)

lemma raw_order_float:
  assumes "map_of row column \<noteq> None" and "f = operator_gt \<or> f = operator_lt"
  shows "raw_test f column (Float v) row = Inl TypeError"
  using assms by (auto simp: raw_test_def getitem_def)

lemma handler_eq_float:
  assumes "\<forall>row \<in> set data. map_of row column \<noteq> None"
  shows "comprehension_if (raw_test operator_eq column (Float v)) data = Inr []"
proof -
  from assms have "\<forall>row \<in> set data. raw_test operator_eq column (Float v) row = Inr False"
    by (simp add: raw_eq_float)
  then have "comprehension_if (raw_test operator_eq column (Float v)) data
             = Inr (filter (\<lambda>row. False) data)"
    by (rule comprehension_if_total)
  then show ?thesis by simp
qed

lemma handler_order_float:
  assumes "\<forall>row \<in> set data. map_of row column \<noteq> None" and "data \<noteq> []"
    and "f = operator_gt \<or> f = operator_lt"
  shows "comprehension_if (raw_test f column (Float v)) data = Inl TypeError"
proof (cases data)
  case Nil
  with assms(2) show ?thesis by simp
next
  case (Cons row rest)
  with assms(1) have "map_of row column \<noteq> None" by simp
  from this assms(3) have "raw_test f column (Float v) row = Inl TypeError"
    by (rule raw_order_float)
  with Cons show ?thesis by simp
qed

lemma filter_data_bad_cell:
  assumes "parse_condition condition = Inr (column, val, k)"
    and "parse_float val = Some v"
    and "\<forall>row \<in> set data. map_of row column \<noteq> None"
    and "\<exists>row \<in> set data. cell_number row column = None"
  shows "filter_data data condition = (if k = CHR ''='' then Inr [] else Inl TypeError)"
proof -
  from assms(1) have tok: "k = CHR ''>'' \<or> k = CHR ''<'' \<or> k = CHR ''=''"
    by (rule parse_condition_token)
  then obtain f where f: "ops_getitem k = Inr f" by (rule ops_getitem_token)
  from tok f assms(3,4) obtain cell where
    "comprehension_if (numeric_test f column v) data = Inl (FloatConversionError cell)"
    using first_pass_bad_cell by blast
  with assms(1,2) f have fd: "filter_data data condition =
      comprehension_if (raw_test f column (Float v)) data"
    by (simp add: filter_data_def py_float_def except_ValueError_def)
  from assms(4) have ne: "data \<noteq> []" by auto
  show ?thesis
  proof (cases "k = CHR ''=''")
    case True
    with f have "f = operator_eq" by (simp add: ops_getitem_cases)
    with fd True assms(3) show ?thesis by (simp add: handler_eq_float)
  next
    case False
    with tok f have "f = operator_gt \<or> f = operator_lt"
      by (auto simp: ops_getitem_cases)
    with assms(3) ne have "comprehension_if (raw_test f column (Float v)) data = Inl TypeError"
      by (rule handler_order_float)
    with fd False show ?thesis by simp
  qed
qed

lemma try_float_eq: "try_float s = Inr (parse_float s)"
  by (simp add: try_float_def py_float_def except_ValueError_def split: option.splits)

lemma py_all_total:
  "\<forall>x \<in> set xs. p x = Inr (q x) \<Longrightarrow> py_all p xs = Inr (\<forall>x \<in> set xs. q x)"
  by (induction xs) auto

lemma column_is_numeric_total:
  assumes "\<forall>row \<in> set data. map_of row key \<noteq> None"
  shows "column_is_numeric data key = Inr (\<forall>row \<in> set data. cell_number row key \<noteq> None)"
  unfolding column_is_numeric_def
proof (rule py_all_total, rule ballI)
  fix row assume "row \<in> set data"
  with assms obtain cell where "map_of row key = Some cell" by auto
  then show "(case getitem row key of
                Inl e \<Rightarrow> Inl e
              | Inr cell \<Rightarrow> (case try_float cell of Inl e \<Rightarrow> Inl e | Inr r \<Rightarrow> Inr (r \<noteq> None)))
             = Inr (cell_number row key \<noteq> None)"
    by (simp add: getitem_def try_float_eq cell_number_def)
qed

lemma float_cells_missing_first:
  assumes "map_of first column = None"
  shows "float_cells (first # rest) column = Inl (KeyError column)"
  using assms by (simp add: float_cells_def getitem_def)

lemma filter_data_missing_first:
  assumes "parse_condition condition = Inr (column, val, k)"
    and "map_of first column = None"
  shows "filter_data (first # rest) condition = Inl (KeyError column)"
proof -
  from assms(1) have "k = CHR ''>'' \<or> k = CHR ''<'' \<or> k = CHR ''=''"
    by (rule parse_condition_token)
  then obtain f where f: "ops_getitem k = Inr f" by (rule ops_getitem_token)
  from assms(2) have n: "numeric_test f column v first = Inl (KeyError column)" for v
    by (simp add: numeric_test_def getitem_def)
  from assms(2) have r: "raw_test f column x first = Inl (KeyError column)" for x
    by (simp add: raw_test_def getitem_def)
  from assms(1) f n r show ?thesis
    by (cases "parse_float val") (simp_all add: filter_data_def except_ValueError_def py_float_def)
qed

lemma aggregate_stage_missing_first:
  assumes "CHR ''='' \<notin> set column0" and "CHR ''='' \<notin> set func0"
    and "map_of first (py_strip column0) = None"
  shows "aggregate_stage (first # rest) (Some (column0 @ CHR ''='' # func0))
         = ([], Inl (KeyError (py_strip column0)))"
proof -
  from assms(1,2) have "unpack2 (py_split CHR ''='' (column0 @ CHR ''='' # func0)) = Inr (column0, func0)"
    by (rule unpack2_py_split_once)
  moreover from assms(3) have "float_cells (first # rest) (py_strip column0)
      = Inl (KeyError (py_strip column0))"
    by (rule float_cells_missing_first)
  ultimately show ?thesis
    by (simp add: aggregate_stage_def given_def)
qed

lemma aggregate_stage_repeated:
  assumes "2 \<le> count_list aggregate CHR ''=''"
  shows "aggregate_stage data (Some aggregate)
         = ([], Inl (UnpackError (Suc (count_list aggregate CHR ''=''))))"
proof -
  from assms have "length (py_split CHR ''='' aggregate) \<noteq> 2"
    by (simp add: length_py_split)
  then have "unpack2 (py_split CHR ''='' aggregate)
      = Inl (UnpackError (length (py_split CHR ''='' aggregate)))"
    by (rule unpack2_error)
  moreover from assms have "CHR ''='' \<in> set aggregate"
    by (metis count_list_0_iff not_numeral_le_zero)
  moreover from this have "aggregate \<noteq> []" by auto
  ultimately show ?thesis
    by (simp add: aggregate_stage_def given_def length_py_split)
qed

lemma aggregate_all_columns_prints:
  "Print s \<notin> set (fst (aggregate_all_columns data))"
  by (simp add: aggregate_all_columns_def split: sum.splits)

lemma aggregate_stage_invalid_message:
  assumes "Print ''Invalid aggregate argument. Use column=func format.''
           \<in> set (fst (aggregate_stage data aggregate_arg))"
  shows "\<exists>aggregate. aggregate_arg = Some aggregate \<and> CHR ''='' \<notin> set aggregate"
proof (cases "given aggregate_arg")
  case None
  with assms show ?thesis
    by (simp add: aggregate_stage_def aggregate_all_columns_prints)
next
  case (Some aggregate)
  then have a: "aggregate_arg = Some aggregate"
    by (auto simp: given_def split: option.splits if_splits)
  show ?thesis
  proof (cases "CHR ''='' \<in> set aggregate")
    case False
    with a show ?thesis by simp
  next
    case True
    with Some have "Print ''Invalid aggregate argument. Use column=func format.''
           \<notin> set (fst (aggregate_stage data aggregate_arg))"
      by (simp add: aggregate_stage_def Let_def split: sum.splits prod.splits)
    with assms show ?thesis by simp
  qed
qed

lemma main_invalid_message:
  assumes "Print ''Invalid aggregate argument. Use column=func format.''
           \<in> set (fst (main file_rows where_arg aggregate_arg))"
  shows "\<exists>aggregate. aggregate_arg = Some aggregate \<and> CHR ''='' \<notin> set aggregate"
proof (cases "where_stage file_rows where_arg")
  case (Inl e)
  with assms show ?thesis by (simp add: main_def)
next
  case (Inr data)
  show ?thesis
  proof (cases "data = []")
    case True
    with Inr assms show ?thesis by (simp add: main_def)
  next
    case False
    with Inr assms have "Print ''Invalid aggregate argument. Use column=func format.''
           \<in> set (fst (aggregate_stage data aggregate_arg))"
      by (simp add: main_def split: prod.splits)
    then show ?thesis by (rule aggregate_stage_invalid_message)
  qed
qed

section \<open>The condition parser\<close>




text \<open>
  Claim C4: for every input string, the condition parser raises the invalid-condition error
  (the \<^verbatim>\<open>ValueError\<close> of line 29) if and only if none of the tokens \<^verbatim>\<open>>\<close>,
  \<^verbatim>\<open><\<close>, \<^verbatim>\<open>=\<close> occurs in the string. The same holds of \<^verbatim>\<open>filter_data\<close> as a
  whole, for any rows: no other path of it raises that error. When the error is raised for
  a \<^verbatim>\<open>--where\<close> argument, \<^verbatim>\<open>main\<close> ends with it, having filtered and printed
  nothing. (An empty \<^verbatim>\<open>--where\<close> argument is not parsed at all, line 88.)
\<close>

theorem invalid_condition_iff:
  "((parse_condition s = Inl InvalidFilterCondition)
      = (CHR ''>'' \<notin> set s \<and> CHR ''<'' \<notin> set s \<and> CHR ''='' \<notin> set s))
   \<and> ((filter_data data s = Inl InvalidFilterCondition)
      = (CHR ''>'' \<notin> set s \<and> CHR ''<'' \<notin> set s \<and> CHR ''='' \<notin> set s))
   \<and> (CHR ''>'' \<notin> set s \<and> CHR ''<'' \<notin> set s \<and> CHR ''='' \<notin> set s \<and> s \<noteq> []
        \<longrightarrow> main file_rows (Some s) aggregate_arg = ([], Inl InvalidFilterCondition))"
proof (intro conjI impI)
  show "(parse_condition s = Inl InvalidFilterCondition)
      = (CHR ''>'' \<notin> set s \<and> CHR ''<'' \<notin> set s \<and> CHR ''='' \<notin> set s)"
    by (rule parse_condition_invalid_iff)
next
  have "filter_data data s = Inl InvalidFilterCondition
        \<Longrightarrow> parse_condition s = Inl InvalidFilterCondition"
    by (rule filter_data_ValueError) simp_all
  moreover have "parse_condition s = Inl InvalidFilterCondition
        \<Longrightarrow> filter_data data s = Inl InvalidFilterCondition"
    by (simp add: filter_data_def)
  ultimately show "(filter_data data s = Inl InvalidFilterCondition)
      = (CHR ''>'' \<notin> set s \<and> CHR ''<'' \<notin> set s \<and> CHR ''='' \<notin> set s)"
    using parse_condition_invalid_iff [of s] by blast
next
  assume a: "CHR ''>'' \<notin> set s \<and> CHR ''<'' \<notin> set s \<and> CHR ''='' \<notin> set s \<and> s \<noteq> []"
  then have "parse_condition s = Inl InvalidFilterCondition"
    by (simp add: parse_condition_invalid_iff)
  then have "filter_data file_rows s = Inl InvalidFilterCondition"
    by (simp add: filter_data_def)
  with a show "main file_rows (Some s) aggregate_arg = ([], Inl InvalidFilterCondition)"
    by (simp add: main_def where_stage_def given_def)
qed

theorem invalid_condition_iff_witness:
  "filter_data [[(''age'', ''30'')]] ''age 30'' = Inl InvalidFilterCondition
   \<and> main [[(''age'', ''30'')]] (Some ''age 30'') (Some ''age=avg'') = ([], Inl InvalidFilterCondition)
   \<and> filter_data [[(''age'', ''30'')]] ''age>30'' \<noteq> Inl InvalidFilterCondition"
  using invalid_condition_iff [of "''age 30''" "[[(''age'', ''30'')]]" "[[(''age'', ''30'')]]" "Some ''age=avg''"]
    invalid_condition_iff [of "''age>30''" "[[(''age'', ''30'')]]"]
  by simp

section \<open>The row filter\<close>

text \<open>
  Claim C2: for every dataset and every condition with one of the operators \<^verbatim>\<open>>\<close>,
  \<^verbatim>\<open><\<close>, \<^verbatim>\<open>=\<close> whose value parses as a number, if every row's cell in the
  condition's column parses as a number too, \<^verbatim>\<open>filter_data\<close> returns exactly the rows
  whose cell, as a number, satisfies the comparison against the value: a sublist of the
  input in the input's order, made of the input's rows as they are.
\<close>

theorem filter_data_numeric:
  assumes "parse_condition condition = Inr (column, val, op_str)"
    and "parse_float val = Some v"
    and "\<forall>row \<in> set data. cell_number row column \<noteq> None"
  shows "filter_data data condition =
         Inr (filter (\<lambda>row. case cell_number row column of
                               None \<Rightarrow> False
                             | Some c \<Rightarrow> satisfies op_str c v) data)"
proof -
  from assms(1) have tok: "op_str = CHR ''>'' \<or> op_str = CHR ''<'' \<or> op_str = CHR ''=''"
    by (rule parse_condition_token)
  then obtain f where f: "ops_getitem op_str = Inr f" by (rule ops_getitem_token)
  from tok f assms(3) have "comprehension_if (numeric_test f column v) data =
         Inr (filter (\<lambda>row. case cell_number row column of
                               None \<Rightarrow> False
                             | Some c \<Rightarrow> satisfies op_str c v) data)"
    by (rule first_pass_total)
  with assms(1,2) f show ?thesis
    by (simp add: filter_data_def py_float_def except_ValueError_def)
qed

theorem filter_data_numeric_witness:
  "filter_data [[(''name'', ''Alice''), (''age'', ''30'')], [(''name'', ''Bob''), (''age'', ''25'')],
                [(''name'', ''Carol''), (''age'', ''41.5'')]] ''age > 26''
   = Inr [[(''name'', ''Alice''), (''age'', ''30'')], [(''name'', ''Carol''), (''age'', ''41.5'')]]"
proof -
  let ?data = "[[(''name'', ''Alice''), (''age'', ''30'')], [(''name'', ''Bob''), (''age'', ''25'')],
                [(''name'', ''Carol''), (''age'', ''41.5'')]]"
  have p: "parse_condition ''age > 26'' = Inr (''age'', ''26'', CHR ''>'')"
    by code_simp
  have v: "parse_float ''26'' = Some (Finite 26)"
    by code_simp
  have c: "\<forall>row \<in> set ?data. cell_number row ''age'' \<noteq> None"
    by code_simp
  have r: "filter (\<lambda>row. case cell_number row ''age'' of
                               None \<Rightarrow> False
                             | Some c \<Rightarrow> satisfies CHR ''>'' c (Finite 26)) ?data
     = [[(''name'', ''Alice''), (''age'', ''30'')], [(''name'', ''Carol''), (''age'', ''41.5'')]]"
    by code_simp
  show ?thesis
    using filter_data_numeric [OF p v c] by (simp only: r)
qed

text \<open>
  Claim C9: for every dataset in which every row has the condition's column, and every
  condition with the operator \<^verbatim>\<open>=\<close> whose value parses as a float, if the cell of at
  least one row does not parse as a float, \<^verbatim>\<open>filter_data\<close> raises nothing and returns the
  empty list: the handler of line 34 catches the failed conversion of the cell, and compares
  the raw cell of every row with the value, which is a float by then; that equality holds
  for no row.
\<close>

theorem filter_data_eq_bad_cell_empty:
  assumes "parse_condition condition = Inr (column, val, CHR ''='')"
    and "parse_float val = Some v"
    and "\<forall>row \<in> set data. map_of row column \<noteq> None"
    and "\<exists>row \<in> set data. cell_number row column = None"
  shows "filter_data data condition = Inr []
         \<and> (\<forall>row \<in> set data. raw_test operator_eq column (Float v) row = Inr False)"
  using filter_data_bad_cell [OF assms] assms(3) by (simp add: raw_eq_float)

theorem filter_data_eq_bad_cell_empty_witness:
  "filter_data [[(''name'', ''Alice''), (''age'', ''30'')], [(''name'', ''Bob''), (''age'', ''n/a'')]]
     ''age = 30'' = Inr []"
proof -
  let ?data = "[[(''name'', ''Alice''), (''age'', ''30'')], [(''name'', ''Bob''), (''age'', ''n/a'')]]"
  have p: "parse_condition ''age = 30'' = Inr (''age'', ''30'', CHR ''='')"
    by code_simp
  have v: "parse_float ''30'' = Some (Finite 30)"
    by code_simp
  have c: "\<forall>row \<in> set ?data. map_of row ''age'' \<noteq> None"
    by simp
  have b: "\<exists>row \<in> set ?data. cell_number row ''age'' = None"
    by code_simp
  show ?thesis
    using filter_data_eq_bad_cell_empty [OF p v c b] by simp
qed




section \<open>The column analyzer\<close>

text \<open>
  Claim C6: for every non-empty dataset (whose rows all have the keys of the first row, as
  the rows of one file do), the numeric columns computed by \<^verbatim>\<open>aggregate_all_columns\<close> are
  exactly the keys of the first row for which the cell of every row parses as a float, in
  the key order of the first row. One cell that does not parse excludes the column; the
  empty string does not parse.
\<close>

theorem numeric_columns_classification:
  assumes "data = first # rest"
    and "\<forall>row \<in> set data. \<forall>key \<in> set (keys first). map_of row key \<noteq> None"
  shows "numeric_columns data =
           Inr (filter (\<lambda>key. \<forall>row \<in> set data. cell_number row key \<noteq> None) (keys first))
         \<and> try_float [] = Inr None"
proof
  have "\<forall>key \<in> set (keys first). column_is_numeric data key
      = Inr (\<forall>row \<in> set data. cell_number row key \<noteq> None)"
  proof
    fix key assume "key \<in> set (keys first)"
    with assms(2) have "\<forall>row \<in> set data. map_of row key \<noteq> None" by blast
    then show "column_is_numeric data key
      = Inr (\<forall>row \<in> set data. cell_number row key \<noteq> None)"
      by (rule column_is_numeric_total)
  qed
  then have "comprehension_if (column_is_numeric data) (keys first) =
      Inr (filter (\<lambda>key. \<forall>row \<in> set data. cell_number row key \<noteq> None) (keys first))"
    by (rule comprehension_if_total)
  with assms(1) show "numeric_columns data =
      Inr (filter (\<lambda>key. \<forall>row \<in> set data. cell_number row key \<noteq> None) (keys first))"
    by (simp add: numeric_columns_def)
next
  show "try_float [] = Inr None"
    by (simp add: try_float_eq parse_float_def split_sign_def parse_number_def)
qed

theorem numeric_columns_classification_witness:
  "numeric_columns
     [[(''X'', ''1''), (''name'', ''abc''), (''Y'', ''2.5''), (''Z'', ''7'')],
      [(''X'', ''2''), (''name'', ''4''), (''Y'', ''-1e3''), (''Z'', [])],
      [(''X'', ''3''), (''name'', ''5''), (''Y'', ''inf''), (''Z'', ''8'')]]
   = Inr [''X'', ''Y'']"
proof -
  let ?first = "[(''X'', ''1''), (''name'', ''abc''), (''Y'', ''2.5''), (''Z'', ''7'')]"
  let ?rest = "[[(''X'', ''2''), (''name'', ''4''), (''Y'', ''-1e3''), (''Z'', [])],
      [(''X'', ''3''), (''name'', ''5''), (''Y'', ''inf''), (''Z'', ''8'')]]"
  have k: "\<forall>row \<in> set (?first # ?rest). \<forall>key \<in> set (keys ?first). map_of row key \<noteq> None"
    by (simp add: keys_def)
  have r: "filter (\<lambda>key. \<forall>row \<in> set (?first # ?rest). cell_number row key \<noteq> None) (keys ?first)
           = [''X'', ''Y'']"
    by code_simp
  show ?thesis
    using numeric_columns_classification [OF refl k] by (simp only: r)
qed

section \<open>The aggregator\<close>

text \<open>
  Claim C7: \<^verbatim>\<open>Aggregator.apply\<close> with the average reducer (registered as \<^verbatim>\<open>avg\<close>) on the
  empty sequence returns \<^verbatim>\<open>0\<close>, by the guard of line 48 and without any division; with
  the minimum reducer (registered as \<^verbatim>\<open>min\<close>) on the empty sequence it raises the
  error of \<^verbatim>\<open>min\<close> on an empty sequence, and returns no value.
\<close>

theorem aggregator_empty_sequence:
  "Aggregator_apply ''avg'' [] = Inr (PyInt 0)
   \<and> Aggregator_apply ''min'' [] = Inl EmptySequenceError"
  by (simp add: Aggregator_apply_def Aggregator_functions_def avg_def py_min_def)

text \<open>
  Claim C8: \<^verbatim>\<open>Aggregator.all\<close> on \<^verbatim>\<open>[1.0, 2.0, 3.0]\<close> gives one pair of reducer name
  and formatted value for each registered reducer, in the order of the registry, each
  value with exactly two decimals: the average \<^verbatim>\<open>2.00\<close>, the minimum \<^verbatim>\<open>1.00\<close>, the
  maximum \<^verbatim>\<open>3.00\<close>. The reducers are registered as \<^verbatim>\<open>avg\<close>, \<^verbatim>\<open>min\<close>,
  \<^verbatim>\<open>max\<close>, and \<open>Finite 1\<close>, \<open>Finite 2\<close>, \<open>Finite 3\<close> are the floats
  \<^verbatim>\<open>1.0\<close>, \<^verbatim>\<open>2.0\<close>, \<^verbatim>\<open>3.0\<close>.
\<close>

theorem aggregator_all_one_two_three:
  "Aggregator_all [Finite 1, Finite 2, Finite 3]
     = Inr [(''avg'', ''2.00''), (''min'', ''1.00''), (''max'', ''3.00'')]
   \<and> map fst Aggregator_functions = [''avg'', ''min'', ''max'']
   \<and> map parse_float [''1.0'', ''2.0'', ''3.0''] = [Some (Finite 1), Some (Finite 2), Some (Finite 3)]"
  by code_simp

section \<open>The orchestrator\<close>

text \<open>
  Claim C5, as the specification states it: on the \<^verbatim>\<open>--aggregate\<close> path a column that
  the rows do not have is a failure that \<^verbatim>\<open>main\<close> catches and turns into a message, ending
  normally.

  The handler of line 107 is \<^verbatim>\<open>except ValueError\<close>; \<^verbatim>\<open>row[column]\<close> raises
  \<^verbatim>\<open>KeyError\<close>, which is not a \<^verbatim>\<open>ValueError\<close>. On the single row
  \<^verbatim>\<open>{name: Alice, age: 30}\<close> with \<^verbatim>\<open>--aggregate salary=avg\<close> the run prints the table
  of the rows and ends with the uncaught \<^verbatim>\<open>KeyError\<close>.
\<close>

theorem main_missing_column_counterexample:
  "main [[(''name'', ''Alice''), (''age'', ''30'')]] None (Some ''salary=avg'')
   = ([Tabulate_rows [[(''name'', ''Alice''), (''age'', ''30'')]]], Inl (KeyError ''salary''))"
  by code_simp

text \<open>
  Claim C5, amended: on the \<^verbatim>\<open>--aggregate\<close> path, when the aggregate (of the form
  \<^verbatim>\<open>column=func\<close>, with one \<^verbatim>\<open>=\<close>) names a column that the first of the rows left
  by the filter does not have, the missing-column failure is not caught: after the table of
  the rows is printed, \<^verbatim>\<open>main\<close> ends with the \<^verbatim>\<open>KeyError\<close>. That is what the
  filtering path does as well: \<^verbatim>\<open>filter_data\<close> ends with the \<^verbatim>\<open>KeyError\<close> when the
  first row does not have the condition's column.
\<close>

theorem missing_column_is_fatal:
  "(where_stage file_rows where_arg = Inr (first # rest)
      \<and> CHR ''='' \<notin> set column0 \<and> CHR ''='' \<notin> set func0
      \<and> map_of first (py_strip column0) = None
    \<longrightarrow> main file_rows where_arg (Some (column0 @ CHR ''='' # func0))
          = ([Tabulate_rows (first # rest)], Inl (KeyError (py_strip column0))))
   \<and> (parse_condition condition = Inr (column, val, op_str) \<and> map_of first column = None
    \<longrightarrow> filter_data (first # rest) condition = Inl (KeyError column))"
  by (simp add: main_def aggregate_stage_missing_first filter_data_missing_first)

theorem missing_column_is_fatal_witness:
  "main [[(''name'', ''Alice''), (''age'', ''30'')], [(''name'', ''Bob''), (''age'', ''25'')]]
        (Some ''age>26'') (Some ''salary = avg'')
     = ([Tabulate_rows [[(''name'', ''Alice''), (''age'', ''30'')]]], Inl (KeyError ''salary''))
   \<and> filter_data [[(''name'', ''Alice''), (''age'', ''30'')]] ''salary>1000''
     = Inl (KeyError ''salary'')"
proof -
  let ?rows = "[[(''name'', ''Alice''), (''age'', ''30'')], [(''name'', ''Bob''), (''age'', ''25'')]]"
  have w: "where_stage ?rows (Some ''age>26'') = Inr [[(''name'', ''Alice''), (''age'', ''30'')]]"
    by code_simp
  have s: "py_strip ''salary '' = ''salary''"
    by (simp add: py_strip_def py_isspace_def)
  have p: "parse_condition ''salary>1000'' = Inr (''salary'', ''1000'', CHR ''>'')"
    by code_simp
  have a: "''salary = avg'' = ''salary '' @ CHR ''='' # '' avg''"
    by simp
  show ?thesis
    using missing_column_is_fatal [of ?rows "Some ''age>26''" "[(''name'', ''Alice''), (''age'', ''30'')]"
        "[]" "''salary ''" "'' avg''" "''salary>1000''" "''salary''" "''1000''" "CHR ''>''"]
    by (simp add: w s p)
qed

text \<open>
  Claim C10: when the rows left by the filter are not empty, so that \<^verbatim>\<open>main\<close> comes to
  the \<^verbatim>\<open>--aggregate\<close> argument, every argument with two or more \<^verbatim>\<open>=\<close> makes the
  assignment of line 101 raise: \<^verbatim>\<open>main\<close> ends with that uncaught error, and prints no
  message about the argument. In every run, the message for a malformed argument is printed
  only when the argument contains no \<^verbatim>\<open>=\<close> at all.
\<close>

theorem repeated_equals_unpack_error:
  "(where_stage file_rows where_arg = Inr data \<and> data \<noteq> []
      \<and> 2 \<le> count_list aggregate CHR ''=''
    \<longrightarrow> main file_rows where_arg (Some aggregate)
          = ([Tabulate_rows data], Inl (UnpackError (Suc (count_list aggregate CHR ''='')))))
   \<and> (Print ''Invalid aggregate argument. Use column=func format.''
         \<in> set (fst (main file_rows where_arg (Some aggregate)))
    \<longrightarrow> CHR ''='' \<notin> set aggregate)"
proof (intro conjI impI)
  assume "where_stage file_rows where_arg = Inr data \<and> data \<noteq> []
      \<and> 2 \<le> count_list aggregate CHR ''=''"
  then show "main file_rows where_arg (Some aggregate)
          = ([Tabulate_rows data], Inl (UnpackError (Suc (count_list aggregate CHR ''=''))))"
    by (simp add: main_def aggregate_stage_repeated)
next
  assume "Print ''Invalid aggregate argument. Use column=func format.''
         \<in> set (fst (main file_rows where_arg (Some aggregate)))"
  then show "CHR ''='' \<notin> set aggregate"
    by (auto dest: main_invalid_message)
qed

theorem repeated_equals_unpack_error_witness:
  "main [[(''name'', ''Alice''), (''age'', ''30'')]] None (Some ''age=avg=max'')
     = ([Tabulate_rows [[(''name'', ''Alice''), (''age'', ''30'')]]], Inl (UnpackError 3))
   \<and> main [[(''name'', ''Alice''), (''age'', ''30'')]] None (Some ''agesum'')
     = ([Tabulate_rows [[(''name'', ''Alice''), (''age'', ''30'')]],
         Print ''Invalid aggregate argument. Use column=func format.''], Inr ())"
proof -
  let ?rows = "[[(''name'', ''Alice''), (''age'', ''30'')]]"
  have w: "where_stage ?rows None = Inr ?rows"
    by (simp add: where_stage_def given_def)
  have c: "count_list ''age=avg=max'' CHR ''='' = 2"
    by simp
  have m: "main ?rows None (Some ''agesum'')
     = ([Tabulate_rows ?rows, Print ''Invalid aggregate argument. Use column=func format.''], Inr ())"
    by code_simp
  show ?thesis
    using repeated_equals_unpack_error [of ?rows None ?rows "''age=avg=max''"]
      repeated_equals_unpack_error [of ?rows None ?rows "''agesum''"]
    by (simp add: w c m)
qed

end
